theory Spec2Isabelle
  imports Main
begin

section \<open>Python strings\<close>

text \<open>
  A Python \<open>str\<close> is a sequence of Unicode code points. The title pattern of
  \<open>main\<close> names the en dash (U+2013) and the em dash (U+2014), which do not fit
  into an 8-bit character, so a string is modelled as the list of its code points.
\<close>

type_synonym pystr = "nat list"

definition py :: "string \<Rightarrow> pystr" where
  "py s = map of_char s"

definition LF :: nat where "LF = 10"
definition DOT :: nat where "DOT = 46"
definition SLASH :: nat where "SLASH = 47"
definition HYPHEN :: nat where "HYPHEN = 45"
definition EN_DASH :: nat where "EN_DASH = 8211"
definition EM_DASH :: nat where "EM_DASH = 8212"

text \<open>
  \<open>\s\<close> in a \<open>str\<close> pattern and \<open>str.strip()\<close> use the same set: the code points
  for which \<open>str.isspace()\<close> holds.
\<close>

definition is_space :: "nat \<Rightarrow> bool" where
  "is_space c \<longleftrightarrow>
     (9 \<le> c \<and> c \<le> 13) \<or> (28 \<le> c \<and> c \<le> 32) \<or> c = 133 \<or> c = 160 \<or> c = 5760 \<or>
     (8192 \<le> c \<and> c \<le> 8202) \<or> c = 8232 \<or> c = 8233 \<or> c = 8239 \<or> c = 8287 \<or> c = 12288"

text \<open>The character class \<open>[-\<dots>]\<close> of the pattern: hyphen, en dash, em dash.\<close>

definition is_dash :: "nat \<Rightarrow> bool" where
  "is_dash c \<longleftrightarrow> c = HYPHEN \<or> c = EN_DASH \<or> c = EM_DASH"

section \<open>Title cleaning: \<open>re.sub(r'\s[-\<dots>]\s.*$', '', title)\<close>\<close>

text \<open>
  \<open>dot_star_dollar r\<close> runs \<open>.*$\<close> on the text \<open>r\<close> that follows the three
  separator characters. \<open>.\<close> matches every character but the line feed, so the
  greedy \<open>.*\<close> stops at the first line feed (or at the end); \<open>$\<close> matches at the
  end of the string and just before a line feed that ends the string. Giving back
  characters never helps, since none of them is a line feed. The result is the
  text left after the match, or \<open>None\<close> when there is no match here.
\<close>

definition dot_star_dollar :: "pystr \<Rightarrow> pystr option" where
  "dot_star_dollar r =
     (let t = dropWhile (\<lambda>c. c \<noteq> LF) r
      in if t = [] \<or> t = [LF] then Some t else None)"

text \<open>The whole pattern tried at the start of \<open>s\<close>.\<close>

fun match_here :: "pystr \<Rightarrow> pystr option" where
  "match_here (w1 # d # w2 # r) =
     (if is_space w1 \<and> is_dash d \<and> is_space w2 then dot_star_dollar r else None)"
| "match_here _ = None"

text \<open>
  \<open>re.sub\<close> scans from the left: where the pattern matches, the match is dropped and
  the scan goes on behind it; elsewhere the character is kept.
\<close>

function clean_title :: "pystr \<Rightarrow> pystr" where
  "clean_title [] = []"
| "clean_title (c # cs) =
     (case match_here (c # cs) of
        Some t \<Rightarrow> clean_title t
      | None \<Rightarrow> c # clean_title cs)"
  by pat_completeness auto
termination
proof (relation "measure length")
  fix c cs t
  assume "match_here (c # cs) = Some t"
  then show "(t, c # cs) \<in> measure length"
  proof (cases "c # cs" rule: match_here.cases)
    case (1 w1 d w2 r)
    assume "match_here (c # cs) = Some t"
    with 1 have "t = dropWhile (\<lambda>c. c \<noteq> LF) r"
      by (auto simp: dot_star_dollar_def Let_def split: if_splits)
    then have "length t \<le> length r"
      by (simp add: length_dropWhile_le)
    with 1 show ?thesis by (metis in_measure le_imp_less_Suc length_Cons less_SucI)
  qed auto
qed auto


section \<open>Paths and small string functions\<close>

text \<open>\<open>os.path.basename\<close> (POSIX): the text behind the last slash.\<close>

definition basename :: "pystr \<Rightarrow> pystr" where
  "basename p = rev (takeWhile (\<lambda>c. c \<noteq> SLASH) (rev p))"

text \<open>
  \<open>os.path.splitext(p)[1]\<close> (POSIX): the extension starts at the last dot, if that
  dot lies behind the last slash and some character between the slash and the dot
  is not a dot; otherwise it is empty.
\<close>

definition splitext_ext :: "pystr \<Rightarrow> pystr" where
  "splitext_ext p =
     (let name = basename p
      in if DOT \<notin> set name then []
         else if list_all (\<lambda>c. c = DOT) (rev (tl (dropWhile (\<lambda>c. c \<noteq> DOT) (rev name)))) then []
         else rev (takeWhile (\<lambda>c. c \<noteq> DOT) (rev name) @ [DOT]))"

text \<open>
  \<open>str.lower()\<close>, restricted to the letters A to Z. \<open>upload_local_image\<close> only
  compares the lowered extension with \<open>.jpg\<close>, \<open>.jpeg\<close>, \<open>.png\<close> and \<open>.gif\<close>,
  and no other code point is lowered to one of their letters.
\<close>

definition lower :: "pystr \<Rightarrow> pystr" where
  "lower s = map (\<lambda>c. if 65 \<le> c \<and> c \<le> 90 then c + 32 else c) s"

text \<open>\<open>str.strip()\<close>: white space removed at both ends.\<close>

definition strip :: "pystr \<Rightarrow> pystr" where
  "strip s = rev (dropWhile is_space (rev (dropWhile is_space s)))"

text \<open>
  The names that \<open>open\<close> takes: a name with a NUL raises \<open>ValueError\<close>, and so does
  (as \<open>UnicodeEncodeError\<close>) a name with a surrogate code point other than those
  from U+DC80 to U+DCFF, which the file system encoding cannot encode.
\<close>

definition valid_path :: "pystr \<Rightarrow> bool" where
  "valid_path p =
     list_all (\<lambda>c. 0 < c \<and> (c < 55296 \<or> (56448 \<le> c \<and> c \<le> 56575) \<or> 57343 < c)) p"

text \<open>\<open>str(n)\<close> for a non-negative integer.\<close>

fun str_nat :: "nat \<Rightarrow> pystr" where
  "str_nat n = (if n < 10 then [48 + n] else str_nat (n div 10) @ [48 + n mod 10])"

declare str_nat.simps [simp del]

section \<open>Values, exceptions, outcomes\<close>

text \<open>
  The exceptions the program can meet. \<open>ConnectionError\<close>, \<open>Timeout\<close>, \<open>InvalidURL\<close>,
  \<open>HTTPError\<close> and \<open>JSONDecodeError\<close> are classes of \<open>requests.exceptions\<close>
  below \<open>RequestException\<close>; the others are built-in exceptions or the error of
  the OpenAI client. \<open>ValueError\<close> stands also for the \<open>json.JSONDecodeError\<close> of
  the standard library, which is one.
\<close>

datatype exn =
    ConnectionError | Timeout | InvalidURL | HTTPError nat | JSONDecodeError
  | AttributeError | TypeError | KeyError | IndexError | OpenAIError
  | ValueError | RecursionError

fun is_RequestException :: "exn \<Rightarrow> bool" where
  "is_RequestException ConnectionError = True"
| "is_RequestException Timeout = True"
| "is_RequestException InvalidURL = True"
| "is_RequestException (HTTPError _) = True"
| "is_RequestException JSONDecodeError = True"
| "is_RequestException _ = False"

text \<open>How a call ends: it returns, an exception leaves it, or \<open>sys.exit\<close> ends the process.\<close>

datatype 'a outcome = Return 'a | Raised exn | SysExit int

text \<open>A parsed JSON value; \<open>JNull\<close> is also Python's \<open>None\<close>. Fractions are left out.\<close>

datatype json =
    JNull | JBool bool | JInt int | JStr pystr | JArr "json list" | JObj "(pystr \<times> json) list"

text \<open>Python's truth value of such a value (\<open>not x\<close>, \<open>if x\<close>).\<close>

fun truthy :: "json \<Rightarrow> bool" where
  "truthy JNull = False"
| "truthy (JBool b) = b"
| "truthy (JInt n) = (n \<noteq> 0)"
| "truthy (JStr s) = (s \<noteq> [])"
| "truthy (JArr xs) = (xs \<noteq> [])"
| "truthy (JObj kvs) = (kvs \<noteq> [])"

text \<open>
  \<open>x.get(key, default)\<close>: only a dict has the method. When a key occurs twice in
  the JSON text, the parser keeps the last value.
\<close>

fun py_get :: "json \<Rightarrow> pystr \<Rightarrow> json \<Rightarrow> exn + json" where
  "py_get (JObj kvs) k dflt = Inr (case map_of (rev kvs) k of Some v \<Rightarrow> v | None \<Rightarrow> dflt)"
| "py_get _ k dflt = Inl AttributeError"

text \<open>\<open>len(x)\<close>: strings, lists and dicts have a length.\<close>

fun py_len :: "json \<Rightarrow> exn + nat" where
  "py_len (JStr s) = Inr (length s)"
| "py_len (JArr xs) = Inr (length xs)"
| "py_len (JObj kvs) = Inr (length (remdups (map fst kvs)))"
| "py_len _ = Inl TypeError"

text \<open>\<open>x[0]\<close>: the first element of a list, the first character of a string; a dict
  parsed from JSON has string keys only, so the key \<open>0\<close> is missing.\<close>

fun py_item0 :: "json \<Rightarrow> exn + json" where
  "py_item0 (JArr []) = Inl IndexError"
| "py_item0 (JArr (x # xs)) = Inr x"
| "py_item0 (JStr []) = Inl IndexError"
| "py_item0 (JStr (c # cs)) = Inr (JStr [c])"
| "py_item0 (JObj kvs) = Inl KeyError"
| "py_item0 _ = Inl TypeError"

section \<open>Articles\<close>

text \<open>
  An article of the headline source is a JSON object whose fields \<open>title\<close>,
  \<open>description\<close>, \<open>content\<close> and \<open>urlToImage\<close> are strings or null, or are missing.
\<close>

datatype field = Missing | Null | Str pystr

record article =
  title :: field
  description :: field
  content :: field
  urlToImage :: field

text \<open>\<open>article.get(k)\<close> and \<open>article.get(k, "")\<close>; \<open>None\<close> is Python's \<open>None\<close>.\<close>

fun get_none :: "field \<Rightarrow> pystr option" where
  "get_none (Str s) = Some s"
| "get_none _ = None"

fun get_empty :: "field \<Rightarrow> pystr option" where
  "get_empty (Str s) = Some s"
| "get_empty Null = None"
| "get_empty Missing = Some []"

text \<open>A value formatted into an f-string.\<close>

fun format_val :: "pystr option \<Rightarrow> pystr" where
  "format_val (Some s) = s"
| "format_val None = py ''None''"

datatype bucket = Finance | Business | Tech

fun bucket_name :: "bucket \<Rightarrow> pystr" where
  "bucket_name Finance = py ''finance''"
| "bucket_name Business = py ''business''"
| "bucket_name Tech = py ''tech''"

section \<open>The collaborators and the state\<close>

text \<open>What \<open>requests.get\<close> or \<open>requests.post\<close> raises instead of returning a response.\<close>

datatype transport_error = ConnectFailed | TimedOut | BadURL

fun exn_of :: "transport_error \<Rightarrow> exn" where
  "exn_of ConnectFailed = ConnectionError"
| "exn_of TimedOut = Timeout"
| "exn_of BadURL = InvalidURL"

datatype 'b response = Response (status_code: nat) (body: 'b)

text \<open>
  The body of a headline response, as far as \<open>fetch_top_headlines\<close> looks at it.
  \<open>Unparseable e\<close> is a body on which \<open>resp.json()\<close> raises \<open>e\<close>: for a text that
  is no JSON this is \<open>requests.exceptions.JSONDecodeError\<close> since requests 2.27
  and the \<open>json.JSONDecodeError\<close> of the standard library (a \<open>ValueError\<close>)
  before; for a text nested too deeply it is \<open>RecursionError\<close>.
\<close>

datatype news_body =
  Unparseable exn | NotObject | NoArticlesKey | ArticlesNull | Articles "article list"

text \<open>
  What becomes of \<open>open(local_filename, "wb")\<close> and the block under it: the content
  is stored; or \<open>open\<close> raises and no file is made; or the file is made and the
  write raises, so that the file stays with what was written before.
\<close>

datatype disk_result = Stored | OpenRefused | WriteBroken "nat list"

text \<open>What \<open>openai.ChatCompletion.create\<close> does.\<close>

datatype openai_result = ApiRaises | EmptyChoices | NullContent | Completion pystr

record post_data =
  pd_title :: pystr
  pd_content :: pystr
  pd_status :: pystr
  pd_categories :: "pystr list"
  pd_featured_image :: "json option"

text \<open>
  Every call of one of the program's functions is recorded with its result, and so
  are every file created or removed and the payload of every request sent to the
  content store.
\<close>

datatype event =
    NewsRequest bucket
  | RewriteArticle pystr "pystr option" "pystr option" pystr
  | DownloadImage pystr pystr bool
  | FileCreated pystr
  | FileRemoved pystr
  | UploadLocalImage pystr "(json \<times> json) outcome"
  | PostsRequest post_data
  | CreateWordpressPost pystr pystr json bool

text \<open>
  The outside world answers each request; the answer may depend on everything that
  happened before. The third argument of \<open>media_post\<close> is the file's content, the
  fourth its MIME type; a body \<open>None\<close> is one that is no JSON text. \<open>disk\<close> is
  the file system asked to store a content under a name.
\<close>

record world =
  news_get :: "event list \<Rightarrow> bucket \<Rightarrow> transport_error + news_body response"
  chat_completion :: "event list \<Rightarrow> pystr \<Rightarrow> openai_result"
  image_get :: "event list \<Rightarrow> pystr \<Rightarrow> transport_error + (nat list) response"
  media_post :: "event list \<Rightarrow> pystr \<Rightarrow> nat list \<Rightarrow> pystr \<Rightarrow> transport_error + (json option) response"
  posts_post :: "event list \<Rightarrow> post_data \<Rightarrow> transport_error + unit response"
  disk :: "event list \<Rightarrow> pystr \<Rightarrow> nat list \<Rightarrow> disk_result"

text \<open>
  The working directory (only the program writes to it) and the record of events.
  The messages printed are left out: the standard output is taken to accept every
  string.
\<close>

record state =
  fs :: "pystr \<Rightarrow> nat list option"
  trace :: "event list"

definition record_event :: "event \<Rightarrow> state \<Rightarrow> state" where
  "record_event e s = s\<lparr>trace := trace s @ [e]\<rparr>"

definition and_then ::
  "'a outcome \<times> state \<Rightarrow> ('a \<Rightarrow> state \<Rightarrow> 'b outcome \<times> state) \<Rightarrow> 'b outcome \<times> state" where
  "and_then m f =
     (case m of
        (Return a, s) \<Rightarrow> f a s
      | (Raised e, s) \<Rightarrow> (Raised e, s)
      | (SysExit n, s) \<Rightarrow> (SysExit n, s))"


section \<open>\<open>fetch_top_headlines\<close>\<close>

text \<open>
  The body of one \<open>try\<close> block: \<open>requests.get\<close>, \<open>raise_for_status\<close> (which
  raises for a status from 400 to 599), \<open>resp.json()\<close>, \<open>data.get("articles", [])\<close>
  and the \<open>len\<close> of the message printed.
\<close>

definition bucket_try :: "transport_error + news_body response \<Rightarrow> exn + article list" where
  "bucket_try r =
     (case r of
        Inl e \<Rightarrow> Inl (exn_of e)
      | Inr resp \<Rightarrow>
          if 400 \<le> status_code resp \<and> status_code resp < 600 then Inl (HTTPError (status_code resp))
          else (case body resp of
                  Unparseable e \<Rightarrow> Inl e
                | NotObject \<Rightarrow> Inl AttributeError
                | NoArticlesKey \<Rightarrow> Inr []
                | ArticlesNull \<Rightarrow> Inl TypeError
                | Articles as \<Rightarrow> Inr as))"

text \<open>
  The block with its handler \<open>except requests.exceptions.RequestException\<close>: a
  caught failure leaves the bucket's entry as it was initialised, empty. The source
  writes the block three times; the copies differ in the query parameters only
  (\<open>q=finance\<close>, \<open>category=business\<close>, \<open>category=technology\<close>), which the bucket
  stands for.
\<close>

definition fetch_bucket :: "world \<Rightarrow> bucket \<Rightarrow> state \<Rightarrow> article list outcome \<times> state" where
  "fetch_bucket w b s =
     (case bucket_try (news_get w (trace s) b) of
        Inr as \<Rightarrow> (Return as, record_event (NewsRequest b) s)
      | Inl e \<Rightarrow>
          if is_RequestException e then (Return [], record_event (NewsRequest b) s)
          else (Raised e, record_event (NewsRequest b) s))"

text \<open>
  The three blocks in the order of the source, then the count and \<open>sys.exit(0)\<close>.
  The result keeps the dict's insertion order.
\<close>

definition fetch_top_headlines ::
  "world \<Rightarrow> state \<Rightarrow> (bucket \<times> article list) list outcome \<times> state" where
  "fetch_top_headlines w s =
     and_then (fetch_bucket w Finance s) (\<lambda>fin s1.
     and_then (fetch_bucket w Business s1) (\<lambda>bus s2.
     and_then (fetch_bucket w Tech s2) (\<lambda>tech s3.
       if length fin + length bus + length tech = 0 then (SysExit 0, s3)
       else (Return [(Finance, fin), (Business, bus), (Tech, tech)], s3))))"

section \<open>\<open>rewrite_article\<close>\<close>

definition prompt_text :: "pystr \<Rightarrow> pystr option \<Rightarrow> pystr option \<Rightarrow> pystr" where
  "prompt_text ttl dsc cnt =
     py ''Please read the following article and rewrite it in an informative, '' @
     py ''concise, and professional news-style format. **Do NOT restate the title '' @
     py ''verbatim as the first line.** Instead, begin with a short introduction. '' @
     py ''Use 400-800 words (or ~1500 tokens). Keep the essential details.'' @ [LF, LF] @
     py ''Title: '' @ ttl @ [LF, LF] @
     py ''Description: '' @ format_val dsc @ [LF, LF] @
     py ''Content: '' @ format_val cnt @ [LF, LF] @
     py ''Rewrite the article while keeping the key details.''"

text \<open>The \<open>try\<close> body: the call, then \<open>response.choices[0].message.content.strip()\<close>.\<close>

fun completion_try :: "openai_result \<Rightarrow> exn + pystr" where
  "completion_try ApiRaises = Inl OpenAIError"
| "completion_try EmptyChoices = Inl IndexError"
| "completion_try NullContent = Inl AttributeError"
| "completion_try (Completion t) = Inr (strip t)"

definition rewrite_failure :: pystr where
  "rewrite_failure = py ''Error: Could not rewrite article using OpenAI API.''"

text \<open>\<open>except Exception\<close> catches every exception of the body.\<close>

definition rewrite_article ::
  "world \<Rightarrow> pystr \<Rightarrow> pystr option \<Rightarrow> pystr option \<Rightarrow> state \<Rightarrow> pystr \<times> state" where
  "rewrite_article w ttl dsc cnt s =
     (let r = (case completion_try (chat_completion w (trace s) (prompt_text ttl dsc cnt)) of
                 Inr t \<Rightarrow> t
               | Inl e \<Rightarrow> rewrite_failure)
      in (r, record_event (RewriteArticle ttl dsc cnt r) s))"

section \<open>\<open>download_image\<close>\<close>

text \<open>
  Only a response with status 200 opens the file and writes it. \<open>except Exception\<close>
  turns every failure inside the \<open>try\<close> into \<open>False\<close>: that of the request, that
  of \<open>open\<close> (a name it does not take, or a refusal of the file system) and that of
  the write under \<open>open\<close>, which leaves the file behind.
\<close>

definition download_image :: "world \<Rightarrow> pystr \<Rightarrow> pystr \<Rightarrow> state \<Rightarrow> bool \<times> state" where
  "download_image w image_url local_filename s =
     (if image_url = [] then (False, record_event (DownloadImage image_url local_filename False) s)
      else (case image_get w (trace s) image_url of
              Inl e \<Rightarrow> (False, record_event (DownloadImage image_url local_filename False) s)
            | Inr resp \<Rightarrow>
                if status_code resp = 200
                then (if \<not> valid_path local_filename
                      then (False, record_event (DownloadImage image_url local_filename False) s)
                      else (case disk w (trace s) local_filename (body resp) of
                              Stored \<Rightarrow>
                                (True, record_event (DownloadImage image_url local_filename True)
                                         (record_event (FileCreated local_filename)
                                            (s\<lparr>fs := (fs s)(local_filename \<mapsto> body resp)\<rparr>)))
                            | OpenRefused \<Rightarrow>
                                (False, record_event (DownloadImage image_url local_filename False) s)
                            | WriteBroken part \<Rightarrow>
                                (False, record_event (DownloadImage image_url local_filename False)
                                          (record_event (FileCreated local_filename)
                                             (s\<lparr>fs := (fs s)(local_filename \<mapsto> part)\<rparr>)))))
                else (False, record_event (DownloadImage image_url local_filename False) s)))"

section \<open>\<open>upload_local_image\<close>\<close>

definition content_type_of :: "pystr \<Rightarrow> pystr" where
  "content_type_of ext =
     (if ext = py ''.jpg'' \<or> ext = py ''.jpeg'' then py ''image/jpeg''
      else if ext = py ''.png'' then py ''image/png''
      else if ext = py ''.gif'' then py ''image/gif''
      else py ''application/octet-stream'')"

text \<open>
  What follows the status check, outside every \<open>try\<close>: \<open>resp.json()\<close>,
  \<open>resp_json.get("media", [])\<close>, the test \<open>not media or len(media) == 0\<close>, then
  \<open>media[0].get("id")\<close> and \<open>media[0].get("link")\<close>.
\<close>

definition read_media :: "json option \<Rightarrow> exn + (json \<times> json)" where
  "read_media b =
     (case b of
        None \<Rightarrow> Inl JSONDecodeError
      | Some resp_json \<Rightarrow>
          (case py_get resp_json (py ''media'') (JArr []) of
             Inl e \<Rightarrow> Inl e
           | Inr media \<Rightarrow>
               if \<not> truthy media then Inr (JNull, JNull)
               else (case py_len media of
                       Inl e \<Rightarrow> Inl e
                     | Inr n \<Rightarrow>
                         if n = 0 then Inr (JNull, JNull)
                         else (case py_item0 media of
                                 Inl e \<Rightarrow> Inl e
                               | Inr m0 \<Rightarrow>
                                   (case py_get m0 (py ''id'') JNull of
                                      Inl e \<Rightarrow> Inl e
                                    | Inr attachment_id \<Rightarrow>
                                        (case py_get m0 (py ''link'') JNull of
                                           Inl e \<Rightarrow> Inl e
                                         | Inr media_link \<Rightarrow> Inr (attachment_id, media_link)))))))"

definition upload_result :: "world \<Rightarrow> pystr \<Rightarrow> state \<Rightarrow> (json \<times> json) outcome" where
  "upload_result w image_path s =
     (case fs s image_path of
        None \<Rightarrow> Return (JNull, JNull)
      | Some data \<Rightarrow>
          (case media_post w (trace s) (basename image_path) data
                  (content_type_of (lower (splitext_ext (basename image_path)))) of
             Inl e \<Rightarrow> Return (JNull, JNull)
           | Inr resp \<Rightarrow>
               if status_code resp \<noteq> 200 \<and> status_code resp \<noteq> 201 then Return (JNull, JNull)
               else (case read_media (body resp) of
                       Inl e \<Rightarrow> Raised e
                     | Inr r \<Rightarrow> Return r)))"

definition upload_local_image ::
  "world \<Rightarrow> pystr \<Rightarrow> state \<Rightarrow> (json \<times> json) outcome \<times> state" where
  "upload_local_image w image_path s =
     (upload_result w image_path s,
      record_event (UploadLocalImage image_path (upload_result w image_path s)) s)"

section \<open>\<open>create_wordpress_post\<close>\<close>

definition make_post_data :: "pystr \<Rightarrow> pystr \<Rightarrow> json \<Rightarrow> post_data" where
  "make_post_data ttl cnt attachment_id =
     \<lparr>pd_title = ttl, pd_content = cnt, pd_status = py ''publish'',
      pd_categories = [py ''Daily''],
      pd_featured_image = (if truthy attachment_id then Some attachment_id else None)\<rparr>"

text \<open>\<open>requests.post\<close> inside its \<open>try\<close>, then the test of the status.\<close>

definition post_accepted :: "transport_error + unit response \<Rightarrow> bool" where
  "post_accepted r =
     (case r of
        Inl e \<Rightarrow> False
      | Inr resp \<Rightarrow> status_code resp = 200 \<or> status_code resp = 201)"

definition post_result :: "world \<Rightarrow> pystr \<Rightarrow> pystr \<Rightarrow> json \<Rightarrow> state \<Rightarrow> bool" where
  "post_result w ttl cnt attachment_id s =
     post_accepted (posts_post w (trace s) (make_post_data ttl cnt attachment_id))"

definition create_wordpress_post ::
  "world \<Rightarrow> pystr \<Rightarrow> pystr \<Rightarrow> json \<Rightarrow> state \<Rightarrow> bool \<times> state" where
  "create_wordpress_post w ttl cnt attachment_id s =
     (post_result w ttl cnt attachment_id s,
      record_event (CreateWordpressPost ttl cnt attachment_id (post_result w ttl cnt attachment_id s))
        (record_event (PostsRequest (make_post_data ttl cnt attachment_id)) s))"

section \<open>\<open>main\<close>\<close>

text \<open>\<open>article.get("title") or "No Title"\<close>, then the cleaning.\<close>

definition title_or_default :: "field \<Rightarrow> pystr" where
  "title_or_default f =
     (case get_none f of
        Some t \<Rightarrow> if t = [] then py ''No Title'' else t
      | None \<Rightarrow> py ''No Title'')"

definition original_title :: "article \<Rightarrow> pystr" where
  "original_title a = clean_title (title_or_default (title a))"

text \<open>
  The extension of the temporary file: \<open>os.path.splitext\<close> of the whole URL string,
  replaced by \<open>.jpg\<close> when empty or longer than five characters.
\<close>

definition temp_ext :: "pystr \<Rightarrow> pystr" where
  "temp_ext image_url =
     (let ext = splitext_ext image_url
      in if ext = [] \<or> length ext > 5 then py ''.jpg'' else ext)"

definition temp_filename :: "pystr \<Rightarrow> nat \<Rightarrow> pystr \<Rightarrow> pystr" where
  "temp_filename category idx ext = py ''temp_image_'' @ category @ py ''_'' @ str_nat idx @ ext"

text \<open>\<open>os.remove\<close> inside \<open>try\<close> \<dots> \<open>except OSError: pass\<close>.\<close>

definition os_remove :: "pystr \<Rightarrow> state \<Rightarrow> state" where
  "os_remove path s =
     (case fs s path of
        None \<Rightarrow> s
      | Some data \<Rightarrow> record_event (FileRemoved path) (s\<lparr>fs := (fs s)(path := None)\<rparr>))"

text \<open>The message printed when the work on an article ends.\<close>

datatype report =
  SkippedNoImage | SkippedDownloadFailed | SkippedNoAttachment | Published | PublishFailed

text \<open>Steps D and E of the loop body, after a download that succeeded.\<close>

definition upload_and_publish ::
  "world \<Rightarrow> pystr \<Rightarrow> pystr \<Rightarrow> pystr \<Rightarrow> state \<Rightarrow> report outcome \<times> state" where
  "upload_and_publish w ttl rewritten_content local_filename s =
     and_then (upload_local_image w local_filename s) (\<lambda>r s3.
       let attachment_id = fst r;
           s4 = os_remove local_filename s3
       in if \<not> truthy attachment_id then (Return SkippedNoAttachment, s4)
          else (let (post_created, s5) =
                      create_wordpress_post w ttl rewritten_content attachment_id s4
                in (Return (if post_created then Published else PublishFailed), s5)))"

text \<open>The body of the inner loop, for one article.\<close>

definition process_article ::
  "world \<Rightarrow> pystr \<Rightarrow> nat \<Rightarrow> article \<Rightarrow> state \<Rightarrow> report outcome \<times> state" where
  "process_article w category idx a s =
     (case get_empty (urlToImage a) of
        None \<Rightarrow> (Return SkippedNoImage, s)
      | Some image_url \<Rightarrow>
          if image_url = [] then (Return SkippedNoImage, s)
          else (let (rewritten_content, s1) =
                      rewrite_article w (original_title a)
                        (get_empty (description a)) (get_empty (content a)) s;
                    local_filename = temp_filename category idx (temp_ext image_url);
                    (downloaded_ok, s2) = download_image w image_url local_filename s1
                in if \<not> downloaded_ok then (Return SkippedDownloadFailed, s2)
                   else upload_and_publish w (original_title a) rewritten_content local_filename s2))"

text \<open>\<open>for idx, article in enumerate(articles, start=1)\<close>; an exception ends the loop.\<close>

fun for_articles :: "world \<Rightarrow> pystr \<Rightarrow> nat \<Rightarrow> article list \<Rightarrow> state \<Rightarrow> unit outcome \<times> state" where
  "for_articles w category idx [] s = (Return (), s)"
| "for_articles w category idx (a # as) s =
     and_then (process_article w category idx a s)
       (\<lambda>r s'. for_articles w category (Suc idx) as s')"

text \<open>\<open>for category, articles in headlines_by_category.items()\<close>.\<close>

fun for_categories ::
  "world \<Rightarrow> (bucket \<times> article list) list \<Rightarrow> state \<Rightarrow> unit outcome \<times> state" where
  "for_categories w [] s = (Return (), s)"
| "for_categories w ((b, as) # rest) s =
     and_then (for_articles w (bucket_name b) 1 as s)
       (\<lambda>r s'. for_categories w rest s')"

definition main :: "world \<Rightarrow> state \<Rightarrow> unit outcome \<times> state" where
  "main w s =
     and_then (fetch_top_headlines w s) (\<lambda>headlines_by_category s'.
       for_categories w headlines_by_category s')"

text \<open>
  Which events are calls of the four stages behind the image check, or a request
  made by one of them.
\<close>

fun is_stage_call :: "event \<Rightarrow> bool" where
  "is_stage_call (RewriteArticle t d c r) = True"
| "is_stage_call (DownloadImage u f ok) = True"
| "is_stage_call (UploadLocalImage f r) = True"
| "is_stage_call (CreateWordpressPost t c i ok) = True"
| "is_stage_call (PostsRequest d) = True"
| "is_stage_call _ = False"


text \<open>The events added between two states of one run.\<close>

definition new_events :: "state \<Rightarrow> state \<Rightarrow> event list" where
  "new_events s s' = drop (length (trace s)) (trace s')"

section \<open>Notions of the specification\<close>

text \<open>
  The media upload failed for its caller: it raised, or it returned no attachment
  id (\<open>None\<close>).
\<close>

fun upload_failed :: "(json \<times> json) outcome \<Rightarrow> bool" where
  "upload_failed (Return r) = (fst r = JNull)"
| "upload_failed _ = True"

text \<open>
  A headline request fails, in the words of claim C5: the transport raises (which
  covers the timeout), the status is no success status (it lies outside 200 to
  299), or the body cannot be parsed.
\<close>

definition request_fails :: "transport_error + news_body response \<Rightarrow> bool" where
  "request_fails r =
     (case r of
        Inl e \<Rightarrow> True
      | Inr resp \<Rightarrow>
          status_code resp < 200 \<or> 300 \<le> status_code resp \<or>
          (case body resp of Unparseable e \<Rightarrow> True | _ \<Rightarrow> False))"

text \<open>
  The failures among these that the handler of the bucket's block takes: the
  transport raises, the status is one that \<open>raise_for_status\<close> rejects (400 to
  599), or \<open>resp.json()\<close> raises a \<open>RequestException\<close>.
\<close>

definition request_caught :: "transport_error + news_body response \<Rightarrow> bool" where
  "request_caught r =
     (case r of
        Inl e \<Rightarrow> True
      | Inr resp \<Rightarrow>
          (400 \<le> status_code resp \<and> status_code resp < 600) \<or>
          (case body resp of Unparseable e \<Rightarrow> is_RequestException e | _ \<Rightarrow> False))"


text \<open>A bucket contributes no article: its block is caught, or it yields an empty list.\<close>

definition bucket_empty :: "transport_error + news_body response \<Rightarrow> bool" where
  "bucket_empty r =
     (case bucket_try r of
        Inr as \<Rightarrow> as = []
      | Inl e \<Rightarrow> is_RequestException e)"

definition COLON :: nat where "COLON = 58"
definition QMARK :: nat where "QMARK = 63"
definition HASH :: nat where "HASH = 35"

text \<open>
  The path of a URL, following the specification's words ("the extension taken
  from the URL's path"): the fragment and the query are cut off, and so are the
  scheme and the authority in front of the path.
\<close>

fun after_scheme :: "pystr \<Rightarrow> pystr option" where
  "after_scheme (c1 # c2 # c3 # r) =
     (if c1 = COLON \<and> c2 = SLASH \<and> c3 = SLASH then Some r else after_scheme (c2 # c3 # r))"
| "after_scheme _ = None"

definition url_path :: "pystr \<Rightarrow> pystr" where
  "url_path u =
     (let u' = takeWhile (\<lambda>c. c \<noteq> QMARK) (takeWhile (\<lambda>c. c \<noteq> HASH) u)
      in case after_scheme u' of
           Some r \<Rightarrow> dropWhile (\<lambda>c. c \<noteq> SLASH) r
         | None \<Rightarrow> u')"

text \<open>
  The extension as the specification words it: that of the URL's path when it is
  not empty and at most five characters long, else \<open>.jpg\<close>.
\<close>

definition url_path_ext :: "pystr \<Rightarrow> pystr" where
  "url_path_ext u =
     (let ext = splitext_ext (url_path u)
      in if ext \<noteq> [] \<and> length ext \<le> 5 then ext else py ''.jpg'')"

section \<open>A concrete run\<close>

text \<open>
  One finance article with an image, and collaborators that all answer well: the
  rewrite succeeds, the image comes with status 200 and is stored, the media
  upload returns the id 42, the post is created with status 201.
\<close>

definition fed_article :: article where
  "fed_article =
     \<lparr>title = Str (py ''Fed Raises Rates - Reuters''),
      description = Str (py ''The central bank moved.''),
      content = Null,
      urlToImage = Str (py ''https://example.com/fed.png'')\<rparr>"

definition media_42 :: json where
  "media_42 =
     JObj [(py ''media'',
            JArr [JObj [(py ''id'', JInt 42), (py ''link'', JStr (py ''https://example.files/fed.png''))]])]"

definition good_world :: world where
  "good_world =
     \<lparr>news_get = (\<lambda>h b. if b = Finance then Inr (Response 200 (Articles [fed_article]))
                          else Inr (Response 200 (Articles []))),
      chat_completion = (\<lambda>h p. Completion (py '' The Fed raised rates. '')),
      image_get = (\<lambda>h u. Inr (Response 200 [137, 80, 78, 71])),
      media_post = (\<lambda>h f d c. Inr (Response 200 (Some media_42))),
      posts_post = (\<lambda>h d. Inr (Response 201 ())),
      disk = (\<lambda>h f d. Stored)\<rparr>"

text \<open>The same, but the media store answers status 200 with a body that is no JSON.\<close>

definition bad_json_world :: world where
  "bad_json_world = good_world\<lparr>media_post := (\<lambda>h f d c. Inr (Response 200 None))\<rparr>"

text \<open>The same as \<open>good_world\<close>, but the generative service raises.\<close>

definition no_rewrite_world :: world where
  "no_rewrite_world = good_world\<lparr>chat_completion := (\<lambda>h p. ApiRaises)\<rparr>"

text \<open>The same as \<open>good_world\<close>, but every headline request times out.\<close>

definition no_news_world :: world where
  "no_news_world = good_world\<lparr>news_get := (\<lambda>h b. Inl TimedOut)\<rparr>"

text \<open>The same as \<open>good_world\<close>, but the media store answers status 500.\<close>

definition upload_500_world :: world where
  "upload_500_world = good_world\<lparr>media_post := (\<lambda>h f d c. Inr (Response 500 None))\<rparr>"

text \<open>An article without a title, and one without an image.\<close>

definition untitled_article :: article where
  "untitled_article = fed_article\<lparr>title := Missing\<rparr>"

definition imageless_article :: article where
  "imageless_article = fed_article\<lparr>urlToImage := Str []\<rparr>"

text \<open>
  The same as \<open>good_world\<close>, but the finance request is answered with status 503
  and the other two buckets hold the article.
\<close>

definition finance_down_world :: world where
  "finance_down_world =
     good_world\<lparr>news_get := (\<lambda>h b. if b = Finance then Inr (Response 503 (Unparseable JSONDecodeError))
                                     else Inr (Response 200 (Articles [fed_article])))\<rparr>"

text \<open>
  The same as \<open>good_world\<close>, but the finance request is answered with status 300
  and a body that holds the article.
\<close>

definition redirect_world :: world where
  "redirect_world =
     good_world\<lparr>news_get := (\<lambda>h b. if b = Finance then Inr (Response 300 (Articles [fed_article]))
                                     else Inr (Response 200 (Articles [])))\<rparr>"

text \<open>
  The same as \<open>good_world\<close>, but the finance request is answered with status 200
  and a body nested so deeply that parsing it raises \<open>RecursionError\<close>.
\<close>

definition deep_json_world :: world where
  "deep_json_world =
     good_world\<lparr>news_get := (\<lambda>h b. if b = Finance then Inr (Response 200 (Unparseable RecursionError))
                                     else Inr (Response 200 (Articles [])))\<rparr>"

text \<open>The same as \<open>good_world\<close>, but the write of the image breaks off after one byte.\<close>

definition broken_disk_world :: world where
  "broken_disk_world = good_world\<lparr>disk := (\<lambda>h f d. WriteBroken [137])\<rparr>"

definition empty_state :: state where
  "empty_state = \<lparr>fs = Map.empty, trace = []\<rparr>"


section \<open>Title cleaning: properties\<close>

lemmas char_defs = LF_def DOT_def SLASH_def HYPHEN_def EN_DASH_def EM_DASH_def

















lemmas title_eval =
  py_def is_space_def is_dash_def dot_star_dollar_def char_defs




text \<open>The two-line title of the witness, cleaned: the first line stays.\<close>

lemma two_line_title_cleaned:
  "clean_title ((py ''Live'' @ [LF] @ py ''Fed Raises Rates'') @ [32, EN_DASH, 32] @ py ''Reuters'')
     = py ''Live'' @ [LF] @ py ''Fed Raises Rates''"
  by (simp add: title_eval)

section \<open>The orchestrator: properties\<close>

lemmas model_defs = process_article_def upload_and_publish_def upload_local_image_def
  create_wordpress_post_def download_image_def rewrite_article_def os_remove_def
  and_then_def record_event_def new_events_def Let_def

lemmas run_defs = main_def fetch_top_headlines_def fetch_bucket_def bucket_try_def
  upload_result_def read_media_def post_result_def post_accepted_def make_post_data_def
  content_type_of_def valid_path_def
  temp_ext_def temp_filename_def splitext_ext_def basename_def lower_def strip_def
  original_title_def title_or_default_def prompt_text_def rewrite_failure_def
  good_world_def bad_json_world_def no_rewrite_world_def no_news_world_def upload_500_world_def
  finance_down_world_def redirect_world_def deep_json_world_def broken_disk_world_def
  fed_article_def untitled_article_def imageless_article_def media_42_def empty_state_def
  str_nat.simps

lemma post_needs_upload:
  assumes "CreateWordpressPost t c aid ok \<in> set (new_events s (snd (process_article w category idx a s)))"
  shows "\<exists>url link. urlToImage a = Str url \<and> url \<noteq> [] \<and>
      DownloadImage url (temp_filename category idx (temp_ext url)) True
         \<in> set (new_events s (snd (process_article w category idx a s))) \<and>
      UploadLocalImage (temp_filename category idx (temp_ext url)) (Return (aid, link))
         \<in> set (new_events s (snd (process_article w category idx a s))) \<and>
      aid \<noteq> JNull"
  using assms
  by (cases "urlToImage a")
     (auto simp: model_defs split: if_splits prod.splits option.splits sum.splits outcome.splits disk_result.splits)

lemma failed_upload_no_post:
  assumes "UploadLocalImage f r \<in> set (new_events s (snd (process_article w category idx a s)))"
    and "upload_failed r"
  shows "CreateWordpressPost t c aid ok \<notin> set (new_events s (snd (process_article w category idx a s)))"
  using assms
  by (cases "urlToImage a")
     (auto simp: model_defs split: if_splits prod.splits option.splits sum.splits outcome.splits disk_result.splits)

text \<open>
  Claim C1: while one article is processed, \<open>create_wordpress_post\<close> is called only
  if the article has a non-empty image URL, \<open>download_image\<close> returned \<open>True\<close> for
  it and \<open>upload_local_image\<close> returned the attachment id passed to the post, which
  is not \<open>None\<close>; and when the upload fails (it raises or returns no attachment
  id), \<open>create_wordpress_post\<close> is not called for that article.
\<close>

theorem post_only_after_media:
  "(CreateWordpressPost t c aid ok \<in> set (new_events s (snd (process_article w category idx a s))) \<longrightarrow>
     (\<exists>url link. urlToImage a = Str url \<and> url \<noteq> [] \<and>
        DownloadImage url (temp_filename category idx (temp_ext url)) True
          \<in> set (new_events s (snd (process_article w category idx a s))) \<and>
        UploadLocalImage (temp_filename category idx (temp_ext url)) (Return (aid, link))
          \<in> set (new_events s (snd (process_article w category idx a s))) \<and>
        aid \<noteq> JNull)) \<and>
   (UploadLocalImage f r \<in> set (new_events s (snd (process_article w category idx a s))) \<and>
      upload_failed r \<longrightarrow>
     CreateWordpressPost t c aid ok \<notin> set (new_events s (snd (process_article w category idx a s))))"
  using post_needs_upload [of t c aid ok s w category idx a]
        failed_upload_no_post [of f r s w category idx a t c aid ok]
  by blast

text \<open>The events of the concrete runs, computed.\<close>

lemma good_events:
  "new_events empty_state (snd (process_article good_world (py ''finance'') 1 fed_article empty_state)) =
     [RewriteArticle (py ''Fed Raises Rates'') (Some (py ''The central bank moved.'')) None
        (py ''The Fed raised rates.''),
      FileCreated (py ''temp_image_finance_1.png''),
      DownloadImage (py ''https://example.com/fed.png'') (py ''temp_image_finance_1.png'') True,
      UploadLocalImage (py ''temp_image_finance_1.png'')
        (Return (JInt 42, JStr (py ''https://example.files/fed.png''))),
      FileRemoved (py ''temp_image_finance_1.png''),
      PostsRequest
        \<lparr>pd_title = py ''Fed Raises Rates'', pd_content = py ''The Fed raised rates.'',
         pd_status = py ''publish'', pd_categories = [py ''Daily''],
         pd_featured_image = Some (JInt 42)\<rparr>,
      CreateWordpressPost (py ''Fed Raises Rates'') (py ''The Fed raised rates.'') (JInt 42) True]"
  by (simp add: model_defs run_defs title_eval)

lemma upload_500_events:
  "new_events empty_state (snd (process_article upload_500_world (py ''finance'') 1 fed_article empty_state)) =
     [RewriteArticle (py ''Fed Raises Rates'') (Some (py ''The central bank moved.'')) None
        (py ''The Fed raised rates.''),
      FileCreated (py ''temp_image_finance_1.png''),
      DownloadImage (py ''https://example.com/fed.png'') (py ''temp_image_finance_1.png'') True,
      UploadLocalImage (py ''temp_image_finance_1.png'') (Return (JNull, JNull)),
      FileRemoved (py ''temp_image_finance_1.png'')]"
  by (simp add: model_defs run_defs title_eval)

text \<open>
  C1 at the run where every collaborator answers well, and at the run where the
  media store answers status 500.
\<close>

theorem post_only_after_media_witness:
  "CreateWordpressPost (py ''Fed Raises Rates'') (py ''The Fed raised rates.'') (JInt 42) True
     \<in> set (new_events empty_state
           (snd (process_article good_world (py ''finance'') 1 fed_article empty_state))) \<and>
   (\<exists>url link. urlToImage fed_article = Str url \<and> url \<noteq> [] \<and>
      DownloadImage url (temp_filename (py ''finance'') 1 (temp_ext url)) True
        \<in> set (new_events empty_state
              (snd (process_article good_world (py ''finance'') 1 fed_article empty_state))) \<and>
      UploadLocalImage (temp_filename (py ''finance'') 1 (temp_ext url)) (Return (JInt 42, link))
        \<in> set (new_events empty_state
              (snd (process_article good_world (py ''finance'') 1 fed_article empty_state)))) \<and>
   UploadLocalImage (py ''temp_image_finance_1.png'') (Return (JNull, JNull))
     \<in> set (new_events empty_state
           (snd (process_article upload_500_world (py ''finance'') 1 fed_article empty_state))) \<and>
   upload_failed (Return (JNull, JNull)) \<and>
   CreateWordpressPost (py ''Fed Raises Rates'') (py ''The Fed raised rates.'') (JInt 42) True
     \<notin> set (new_events empty_state
           (snd (process_article upload_500_world (py ''finance'') 1 fed_article empty_state)))"
proof -
  have h1: "CreateWordpressPost (py ''Fed Raises Rates'') (py ''The Fed raised rates.'') (JInt 42) True
     \<in> set (new_events empty_state
           (snd (process_article good_world (py ''finance'') 1 fed_article empty_state)))"
    unfolding good_events by simp
  have h2: "UploadLocalImage (py ''temp_image_finance_1.png'') (Return (JNull, JNull))
     \<in> set (new_events empty_state
           (snd (process_article upload_500_world (py ''finance'') 1 fed_article empty_state)))"
    unfolding upload_500_events by simp
  have h3: "upload_failed (Return (JNull, JNull))" by simp
  from post_only_after_media [of "py ''Fed Raises Rates''" "py ''The Fed raised rates.''" "JInt 42" True
             empty_state good_world "py ''finance''" 1 fed_article] h1
  have c1: "\<exists>url link. urlToImage fed_article = Str url \<and> url \<noteq> [] \<and>
      DownloadImage url (temp_filename (py ''finance'') 1 (temp_ext url)) True
        \<in> set (new_events empty_state
              (snd (process_article good_world (py ''finance'') 1 fed_article empty_state))) \<and>
      UploadLocalImage (temp_filename (py ''finance'') 1 (temp_ext url)) (Return (JInt 42, link))
        \<in> set (new_events empty_state
              (snd (process_article good_world (py ''finance'') 1 fed_article empty_state)))"
    by blast
  from post_only_after_media [of "py ''Fed Raises Rates''" "py ''The Fed raised rates.''" "JInt 42" True
             empty_state upload_500_world "py ''finance''" 1 fed_article
             "py ''temp_image_finance_1.png''" "Return (JNull, JNull)"] h2 h3
  have c2: "CreateWordpressPost (py ''Fed Raises Rates'') (py ''The Fed raised rates.'') (JInt 42) True
     \<notin> set (new_events empty_state
           (snd (process_article upload_500_world (py ''finance'') 1 fed_article empty_state)))"
    by blast
  from h1 h2 h3 c1 c2 show ?thesis by blast
qed

text \<open>
  Claim C3: for an article whose image URL is missing, null or empty, the loop body
  ends at once with the state unchanged: no call of \<open>rewrite_article\<close>,
  \<open>download_image\<close>, \<open>upload_local_image\<close> or \<open>create_wordpress_post\<close> is made for
  it, and the loop goes on with the next article.
\<close>

theorem no_image_no_calls:
  assumes "urlToImage a = Missing \<or> urlToImage a = Null \<or> urlToImage a = Str []"
  shows "process_article w category idx a s = (Return SkippedNoImage, s) \<and>
         filter is_stage_call (new_events s (snd (process_article w category idx a s))) = [] \<and>
         for_articles w category idx (a # rest) s = for_articles w category (Suc idx) rest s"
proof -
  from assms have p: "process_article w category idx a s = (Return SkippedNoImage, s)"
    by (auto simp: process_article_def)
  then have "new_events s (snd (process_article w category idx a s)) = []"
    by (simp add: new_events_def)
  with p show ?thesis by (simp add: and_then_def)
qed

text \<open>C3 at an article with an empty image URL, followed by one with an image.\<close>

theorem no_image_no_calls_witness:
  "(urlToImage imageless_article = Missing \<or> urlToImage imageless_article = Null \<or>
      urlToImage imageless_article = Str []) \<and>
   process_article good_world (py ''finance'') 1 imageless_article empty_state
      = (Return SkippedNoImage, empty_state) \<and>
   filter is_stage_call (new_events empty_state
      (snd (process_article good_world (py ''finance'') 1 imageless_article empty_state))) = [] \<and>
   for_articles good_world (py ''finance'') 1 [imageless_article, fed_article] empty_state
      = for_articles good_world (py ''finance'') (Suc 1) [fed_article] empty_state"
proof -
  have h: "urlToImage imageless_article = Missing \<or> urlToImage imageless_article = Null \<or>
      urlToImage imageless_article = Str []"
    by (simp add: imageless_article_def)
  from no_image_no_calls [OF h, of good_world "py ''finance''" 1 empty_state "[fed_article]"] h
  show ?thesis by blast
qed

text \<open>
  A call of \<open>create_wordpress_post\<close> ends the work on an article. Its title is the
  cleaned title, its attachment id is a true value, the request sent to the
  content store carries them with the content, and the result of the call is the
  store's answer to that request.
\<close>

lemma post_event_trace:
  assumes "CreateWordpressPost t c i ok \<in> set (new_events s (snd (process_article w category idx a s)))"
  shows "t = original_title a \<and> truthy i \<and>
         (\<exists>h. trace (snd (process_article w category idx a s))
                 = h @ [PostsRequest (make_post_data t c i), CreateWordpressPost t c i ok] \<and>
              ok = post_accepted (posts_post w h (make_post_data t c i)))"
  using assms
  by (cases "urlToImage a")
     (auto simp: model_defs post_result_def
           split: if_splits prod.splits option.splits sum.splits outcome.splits disk_result.splits)

lemma posts_request_title:
  assumes "PostsRequest d \<in> set (new_events s (snd (process_article w category idx a s)))"
  shows "pd_title d = original_title a"
  using assms
  by (cases "urlToImage a")
     (auto simp: model_defs make_post_data_def
           split: if_splits prod.splits option.splits sum.splits outcome.splits disk_result.splits)

text \<open>
  Claim C10: for an article whose title is missing, null or empty, \<open>No Title\<close>
  is substituted before the cleaning and the cleaning leaves it as it is; every
  request sent to the content store for that article carries this title, which is
  not empty; and every call of \<open>create_wordpress_post\<close> for it has this title, sends
  the request whose title field is \<open>No Title\<close>, and returns the store's answer to
  that request.
\<close>

theorem missing_title_default:
  assumes "title a = Missing \<or> title a = Null \<or> title a = Str []"
  shows "title_or_default (title a) = py ''No Title'' \<and>
         original_title a = py ''No Title'' \<and>
         (PostsRequest d \<in> set (new_events s (snd (process_article w category idx a s)))
            \<longrightarrow> pd_title d = py ''No Title'' \<and> pd_title d \<noteq> []) \<and>
         (CreateWordpressPost t c i ok \<in> set (new_events s (snd (process_article w category idx a s)))
            \<longrightarrow> t = py ''No Title'' \<and> t \<noteq> [] \<and>
                (\<exists>h. trace (snd (process_article w category idx a s)) =
                        h @ [PostsRequest
                               \<lparr>pd_title = py ''No Title'', pd_content = c, pd_status = py ''publish'',
               pd_categories = [py ''Daily''], pd_featured_image = Some i\<rparr>,
                             CreateWordpressPost t c i ok] \<and>
                     ok = post_accepted (posts_post w h
                               \<lparr>pd_title = py ''No Title'', pd_content = c, pd_status = py ''publish'',
               pd_categories = [py ''Daily''], pd_featured_image = Some i\<rparr>)))"
proof -
  from assms have d: "title_or_default (title a) = py ''No Title''"
    by (auto simp: title_or_default_def)
  have "clean_title (py ''No Title'') = py ''No Title''"
    by (simp add: title_eval)
  with d have o: "original_title a = py ''No Title''"
    by (simp add: original_title_def)
  have ne: "py ''No Title'' \<noteq> []" by (simp add: py_def)
  have pd: "\<And>c i. truthy i \<Longrightarrow> make_post_data (py ''No Title'') c i =
      \<lparr>pd_title = py ''No Title'', pd_content = c, pd_status = py ''publish'',
               pd_categories = [py ''Daily''], pd_featured_image = Some i\<rparr>"
    by (simp add: make_post_data_def)
  have 3: "PostsRequest d \<in> set (new_events s (snd (process_article w category idx a s)))
            \<longrightarrow> pd_title d = py ''No Title'' \<and> pd_title d \<noteq> []"
    using posts_request_title [of d s w category idx a] o ne by auto
  have 4: "CreateWordpressPost t c i ok \<in> set (new_events s (snd (process_article w category idx a s)))
            \<longrightarrow> t = py ''No Title'' \<and> t \<noteq> [] \<and>
                (\<exists>h. trace (snd (process_article w category idx a s)) =
                        h @ [PostsRequest
                               \<lparr>pd_title = py ''No Title'', pd_content = c, pd_status = py ''publish'',
               pd_categories = [py ''Daily''], pd_featured_image = Some i\<rparr>,
                             CreateWordpressPost t c i ok] \<and>
                     ok = post_accepted (posts_post w h
                               \<lparr>pd_title = py ''No Title'', pd_content = c, pd_status = py ''publish'',
               pd_categories = [py ''Daily''], pd_featured_image = Some i\<rparr>))"
  proof
    assume e: "CreateWordpressPost t c i ok \<in> set (new_events s (snd (process_article w category idx a s)))"
    from post_event_trace [OF e] o have t: "t = py ''No Title''" and i: "truthy i"
      and h: "\<exists>h. trace (snd (process_article w category idx a s))
                 = h @ [PostsRequest (make_post_data t c i), CreateWordpressPost t c i ok] \<and>
              ok = post_accepted (posts_post w h (make_post_data t c i))"
      by auto
    from h t pd [OF i] ne show "t = py ''No Title'' \<and> t \<noteq> [] \<and>
                (\<exists>h. trace (snd (process_article w category idx a s)) =
                        h @ [PostsRequest
                               \<lparr>pd_title = py ''No Title'', pd_content = c, pd_status = py ''publish'',
               pd_categories = [py ''Daily''], pd_featured_image = Some i\<rparr>,
                             CreateWordpressPost t c i ok] \<and>
                     ok = post_accepted (posts_post w h
                               \<lparr>pd_title = py ''No Title'', pd_content = c, pd_status = py ''publish'',
               pd_categories = [py ''Daily''], pd_featured_image = Some i\<rparr>))"
      by simp
  qed
  from d o 3 4 show ?thesis by blast
qed

lemma untitled_events:
  "new_events empty_state (snd (process_article good_world (py ''tech'') 2 untitled_article empty_state)) =
     [RewriteArticle (py ''No Title'') (Some (py ''The central bank moved.'')) None
        (py ''The Fed raised rates.''),
      FileCreated (py ''temp_image_tech_2.png''),
      DownloadImage (py ''https://example.com/fed.png'') (py ''temp_image_tech_2.png'') True,
      UploadLocalImage (py ''temp_image_tech_2.png'')
        (Return (JInt 42, JStr (py ''https://example.files/fed.png''))),
      FileRemoved (py ''temp_image_tech_2.png''),
      PostsRequest
        \<lparr>pd_title = py ''No Title'', pd_content = py ''The Fed raised rates.'',
         pd_status = py ''publish'', pd_categories = [py ''Daily''],
         pd_featured_image = Some (JInt 42)\<rparr>,
      CreateWordpressPost (py ''No Title'') (py ''The Fed raised rates.'') (JInt 42) True]"
  by (simp add: model_defs run_defs title_eval)

text \<open>C10 at an article without a title field, which is published.\<close>

theorem missing_title_default_witness:
  "(title untitled_article = Missing \<or> title untitled_article = Null \<or>
      title untitled_article = Str []) \<and>
   original_title untitled_article = py ''No Title'' \<and>
   PostsRequest
     \<lparr>pd_title = py ''No Title'', pd_content = py ''The Fed raised rates.'',
      pd_status = py ''publish'', pd_categories = [py ''Daily''],
      pd_featured_image = Some (JInt 42)\<rparr>
     \<in> set (new_events empty_state
          (snd (process_article good_world (py ''tech'') 2 untitled_article empty_state))) \<and>
   CreateWordpressPost (py ''No Title'') (py ''The Fed raised rates.'') (JInt 42) True
     \<in> set (new_events empty_state
          (snd (process_article good_world (py ''tech'') 2 untitled_article empty_state))) \<and>
   (\<exists>h. trace (snd (process_article good_world (py ''tech'') 2 untitled_article empty_state)) =
           h @ [PostsRequest
                  \<lparr>pd_title = py ''No Title'', pd_content = py ''The Fed raised rates.'',
                   pd_status = py ''publish'', pd_categories = [py ''Daily''],
                   pd_featured_image = Some (JInt 42)\<rparr>,
                CreateWordpressPost (py ''No Title'') (py ''The Fed raised rates.'') (JInt 42) True] \<and>
        True = post_accepted (posts_post good_world h
                  \<lparr>pd_title = py ''No Title'', pd_content = py ''The Fed raised rates.'',
                   pd_status = py ''publish'', pd_categories = [py ''Daily''],
                   pd_featured_image = Some (JInt 42)\<rparr>)) \<and>
   py ''No Title'' \<noteq> []"
proof -
  have h: "title untitled_article = Missing \<or> title untitled_article = Null \<or>
      title untitled_article = Str []"
    by (simp add: untitled_article_def)
  have e: "CreateWordpressPost (py ''No Title'') (py ''The Fed raised rates.'') (JInt 42) True
     \<in> set (new_events empty_state
          (snd (process_article good_world (py ''tech'') 2 untitled_article empty_state)))"
    unfolding untitled_events by simp
  have r: "PostsRequest
     \<lparr>pd_title = py ''No Title'', pd_content = py ''The Fed raised rates.'',
      pd_status = py ''publish'', pd_categories = [py ''Daily''],
      pd_featured_image = Some (JInt 42)\<rparr>
     \<in> set (new_events empty_state
          (snd (process_article good_world (py ''tech'') 2 untitled_article empty_state)))"
    unfolding untitled_events by simp
  from missing_title_default [OF h, of _ empty_state good_world "py ''tech''" 2
         "py ''No Title''" "py ''The Fed raised rates.''" "JInt 42" True] h e r
  show ?thesis by blast
qed

text \<open>
  A title that is not empty can still be cleaned to the empty string; C10 does not
  speak about such titles.
\<close>

lemma separator_first_title_is_emptied:
  "original_title (fed_article\<lparr>title := Str (py '' - Reuters'')\<rparr>) = []"
  by (simp add: original_title_def title_or_default_def title_eval)

text \<open>
  \<open>rewrite_article\<close> returns a string whatever the generative service does: the
  stripped completion, or the fixed failure text.
\<close>

lemma rewrite_article_result:
  "fst (rewrite_article w ttl dsc cnt s) =
     (case chat_completion w (trace s) (prompt_text ttl dsc cnt) of
        Completion t \<Rightarrow> strip t
      | _ \<Rightarrow> rewrite_failure)"
  by (cases "chat_completion w (trace s) (prompt_text ttl dsc cnt)")
     (simp_all add: rewrite_article_def Let_def)



text \<open>The same run, computed: the post goes out with the failure text as its content.\<close>

lemma no_rewrite_events:
  "new_events empty_state (snd (process_article no_rewrite_world (py ''finance'') 1 fed_article empty_state)) =
     [RewriteArticle (py ''Fed Raises Rates'') (Some (py ''The central bank moved.'')) None
        rewrite_failure,
      FileCreated (py ''temp_image_finance_1.png''),
      DownloadImage (py ''https://example.com/fed.png'') (py ''temp_image_finance_1.png'') True,
      UploadLocalImage (py ''temp_image_finance_1.png'')
        (Return (JInt 42, JStr (py ''https://example.files/fed.png''))),
      FileRemoved (py ''temp_image_finance_1.png''),
      PostsRequest
        \<lparr>pd_title = py ''Fed Raises Rates'', pd_content = rewrite_failure,
         pd_status = py ''publish'', pd_categories = [py ''Daily''],
         pd_featured_image = Some (JInt 42)\<rparr>,
      CreateWordpressPost (py ''Fed Raises Rates'') rewrite_failure (JInt 42) True]"
  by (simp add: model_defs run_defs title_eval)

section \<open>The headline source: properties\<close>

lemma fetch_bucket_empty:
  assumes "bucket_empty (news_get w (trace s) b)"
  shows "fetch_bucket w b s = (Return [], record_event (NewsRequest b) s)"
  using assms by (auto simp: bucket_empty_def fetch_bucket_def split: sum.splits)

text \<open>
  Claim C6: when no bucket yields an article, \<open>main\<close> ends in \<open>sys.exit(0)\<close>
  right after the three headline requests: no call of \<open>rewrite_article\<close>,
  \<open>download_image\<close>, \<open>upload_local_image\<close> or \<open>create_wordpress_post\<close> is made, and
  no file is touched.
\<close>

theorem no_articles_clean_exit:
  assumes "\<And>h b. bucket_empty (news_get w h b)"
  shows "fst (main w s) = SysExit 0 \<and>
         filter is_stage_call (new_events s (snd (main w s))) = [] \<and>
         new_events s (snd (main w s)) = [NewsRequest Finance, NewsRequest Business, NewsRequest Tech] \<and>
         fs (snd (main w s)) = fs s"
proof -
  have "fetch_top_headlines w s =
      (SysExit 0, record_event (NewsRequest Tech) (record_event (NewsRequest Business)
         (record_event (NewsRequest Finance) s)))"
    by (simp add: fetch_top_headlines_def fetch_bucket_empty assms and_then_def)
  then show ?thesis
    by (simp add: main_def and_then_def record_event_def new_events_def)
qed

text \<open>C6 at the run whose headline requests all time out.\<close>

theorem no_articles_clean_exit_witness:
  "bucket_empty (news_get no_news_world [] Finance) \<and>
   fst (main no_news_world empty_state) = SysExit 0 \<and>
   filter is_stage_call (new_events empty_state (snd (main no_news_world empty_state))) = [] \<and>
   fs (snd (main no_news_world empty_state)) = fs empty_state"
proof -
  have h: "\<And>h b. bucket_empty (news_get no_news_world h b)"
    by (simp add: no_news_world_def bucket_empty_def bucket_try_def)
  from no_articles_clean_exit [of no_news_world empty_state, OF h] h [of "[]" Finance]
  show ?thesis by blast
qed

text \<open>What the handler of a bucket's block takes.\<close>

lemma request_caught_handled:
  assumes "request_caught r"
  shows "\<exists>e. bucket_try r = Inl e \<and> is_RequestException e"
proof (cases r)
  case (Inl t)
  then show ?thesis by (cases t) (simp_all add: bucket_try_def)
next
  case (Inr resp)
  with assms show ?thesis
    by (cases "body resp") (auto simp: request_caught_def bucket_try_def)
qed

lemma fetch_bucket_caught:
  assumes "request_caught (news_get w (trace s) b)"
  shows "fetch_bucket w b s = (Return [], record_event (NewsRequest b) s)"
  using request_caught_handled [OF assms] by (auto simp: fetch_bucket_def)

lemma fetch_bucket_as_empty:
  assumes "\<And>h. request_caught (news_get w h b)"
  shows "fetch_bucket w b' s =
         fetch_bucket (w\<lparr>news_get := (\<lambda>h c. if c = b then Inr (Response 200 (Articles []))
                                                else news_get w h c)\<rparr>) b' s"
proof (cases "b' = b")
  case True
  with fetch_bucket_caught [OF assms, of s] show ?thesis
    by (simp add: fetch_bucket_def bucket_try_def)
next
  case False
  then show ?thesis by (simp add: fetch_bucket_def)
qed

text \<open>
  Every failure the handler takes is a failure in the words of the claim; the
  converse does not hold.
\<close>

lemma request_caught_fails: "request_caught r \<Longrightarrow> request_fails r"
proof (cases r)
  case (Inl t)
  then show ?thesis by (simp add: request_fails_def)
next
  case (Inr resp)
  assume "request_caught r"
  with Inr show ?thesis
    by (cases "body resp") (auto simp: request_caught_def request_fails_def)
qed

lemma request_caught_kinds:
  "request_caught (Inl ConnectFailed) \<and> request_caught (Inl TimedOut) \<and>
   request_caught (Inr (Response 404 b)) \<and> request_caught (Inr (Response 500 b)) \<and>
   request_caught (Inr (Response 200 (Unparseable JSONDecodeError)))"
  by (simp add: request_caught_def)

text \<open>
  Claim C5, as stated, fails in two places. A status that is no success status but
  lies outside 400 to 599 passes \<open>raise_for_status\<close>: the finance request answered
  with status 300 and a body holding an article fills the bucket. And a body on
  which \<open>resp.json()\<close> raises something else than a \<open>RequestException\<close> is not
  caught: for a body nested too deeply, \<open>RecursionError\<close> leaves
  \<open>fetch_top_headlines\<close>.
\<close>

theorem failed_bucket_not_always_empty:
  "request_fails (news_get redirect_world [] Finance) \<and>
   fst (fetch_top_headlines redirect_world empty_state)
     = Return [(Finance, [fed_article]), (Business, []), (Tech, [])] \<and>
   request_fails (news_get deep_json_world [] Finance) \<and>
   fst (fetch_top_headlines deep_json_world empty_state) = Raised RecursionError"
  by (simp add: run_defs request_fails_def and_then_def record_event_def)

text \<open>
  Claim C5, amended: when the headline request of a bucket fails with a transport
  error or a timeout, with a status from 400 to 599, or with a body on which
  \<open>resp.json()\<close> raises a \<open>RequestException\<close>, the bucket's block ends normally
  with an empty list and raises nothing; \<open>fetch_top_headlines\<close> behaves exactly as
  if that request had succeeded with no article, so the other buckets are not
  affected; and a returned mapping holds the empty list for that bucket.
\<close>

theorem failed_bucket_is_empty:
  assumes "\<And>h. request_caught (news_get w h b)"
  shows "fetch_bucket w b s = (Return [], record_event (NewsRequest b) s) \<and>
         fetch_top_headlines w s =
           fetch_top_headlines
             (w\<lparr>news_get := (\<lambda>h c. if c = b then Inr (Response 200 (Articles []))
                                       else news_get w h c)\<rparr>) s \<and>
         (fetch_top_headlines w s = (Return m, s') \<longrightarrow> map_of m b = Some [])"
proof -
  have 1: "fetch_bucket w b s = (Return [], record_event (NewsRequest b) s)"
    by (rule fetch_bucket_caught) (rule assms)
  have 2: "fetch_top_headlines w s =
           fetch_top_headlines
             (w\<lparr>news_get := (\<lambda>h c. if c = b then Inr (Response 200 (Articles []))
                                       else news_get w h c)\<rparr>) s"
    unfolding fetch_top_headlines_def
    by (simp only: fetch_bucket_as_empty [OF assms, symmetric])
  have 3: "fetch_top_headlines w s = (Return m, s') \<longrightarrow> map_of m b = Some []"
  proof (cases b)
    case Finance
    with fetch_bucket_caught [OF assms, of s] show ?thesis
      by (auto simp: fetch_top_headlines_def and_then_def
               split: prod.splits outcome.splits if_splits)
  next
    case Business
    with fetch_bucket_caught [OF assms] show ?thesis
      by (auto simp: fetch_top_headlines_def and_then_def
               split: prod.splits outcome.splits if_splits)
  next
    case Tech
    with fetch_bucket_caught [OF assms] show ?thesis
      by (auto simp: fetch_top_headlines_def and_then_def
               split: prod.splits outcome.splits if_splits)
  qed
  from 1 2 3 show ?thesis by blast
qed

lemma finance_down_headlines:
  "fetch_top_headlines finance_down_world empty_state =
     (Return [(Finance, []), (Business, [fed_article]), (Tech, [fed_article])],
      \<lparr>fs = Map.empty, trace = [NewsRequest Finance, NewsRequest Business, NewsRequest Tech]\<rparr>)"
  by (simp add: run_defs and_then_def record_event_def)

text \<open>
  The amended C5 at the run whose finance request is answered with status 503 and
  a body that is no JSON.
\<close>

theorem failed_bucket_is_empty_witness:
  "request_caught (news_get finance_down_world [] Finance) \<and>
   fetch_bucket finance_down_world Finance empty_state
     = (Return [], record_event (NewsRequest Finance) empty_state) \<and>
   fetch_top_headlines finance_down_world empty_state =
     (Return [(Finance, []), (Business, [fed_article]), (Tech, [fed_article])],
      \<lparr>fs = Map.empty, trace = [NewsRequest Finance, NewsRequest Business, NewsRequest Tech]\<rparr>) \<and>
   map_of [(Finance, []), (Business, [fed_article]), (Tech, [fed_article])] Finance = Some []"
proof -
  have h: "\<And>h. request_caught (news_get finance_down_world h Finance)"
    by (simp add: finance_down_world_def good_world_def request_caught_def)
  from failed_bucket_is_empty [of finance_down_world Finance empty_state
             "[(Finance, []), (Business, [fed_article]), (Tech, [fed_article])]"
             "\<lparr>fs = Map.empty, trace = [NewsRequest Finance, NewsRequest Business, NewsRequest Tech]\<rparr>",
           OF h]
       h [of "[]"] finance_down_headlines
  show ?thesis by blast
qed

section \<open>Temporary files and the media upload\<close>

text \<open>
  Claim C2 asks that every temporary file is deleted on every exit path. The code
  breaks it where \<open>upload_local_image\<close> raises: \<open>resp.json()\<close> stands outside the
  \<open>try\<close>, so a media response with status 200 and a body that is no JSON ends
  \<open>main\<close> with the exception before \<open>os.remove\<close> is reached, and the file stays.
\<close>

theorem temp_file_left_when_upload_raises:
  "fst (main bad_json_world empty_state) = Raised JSONDecodeError \<and>
   fs (snd (main bad_json_world empty_state)) (py ''temp_image_finance_1.png'') = Some [137, 80, 78, 71] \<and>
   FileCreated (py ''temp_image_finance_1.png'') \<in> set (trace (snd (main bad_json_world empty_state))) \<and>
   FileRemoved (py ''temp_image_finance_1.png'') \<notin> set (trace (snd (main bad_json_world empty_state)))"
  by (simp add: model_defs run_defs title_eval)

text \<open>
  Where the download succeeded and the loop body returns, the file it created is
  removed exactly once and is gone at the end.
\<close>

lemma temp_file_removed_on_return:
  assumes "process_article w category idx a s = (Return r, s')"
    and "DownloadImage u f True \<in> set (new_events s s')"
  shows "fs s' f = None \<and>
         length (filter (\<lambda>e. e = FileCreated f) (new_events s s')) = 1 \<and>
         length (filter (\<lambda>e. e = FileRemoved f) (new_events s s')) = 1"
  using assms
  by (cases "urlToImage a")
     (auto simp: model_defs
           split: if_splits prod.splits option.splits sum.splits outcome.splits disk_result.splits)

text \<open>
  A file also stays when the write under \<open>open\<close> breaks off: \<open>download_image\<close>
  returns \<open>False\<close>, the article is skipped, and nothing removes what was written.
\<close>

lemma temp_file_left_when_write_breaks:
  "fst (process_article broken_disk_world (py ''finance'') 1 fed_article empty_state)
     = Return SkippedDownloadFailed \<and>
   fs (snd (process_article broken_disk_world (py ''finance'') 1 fed_article empty_state))
      (py ''temp_image_finance_1.png'') = Some [137]"
  by (simp add: model_defs run_defs title_eval)

text \<open>
  Claim C7 asks that \<open>upload_local_image\<close> returns \<open>(None, None)\<close> for every
  unexpected response body instead of raising. The code breaks it for a response
  with status 200 whose body is no JSON: \<open>resp.json()\<close> raises outside every
  \<open>try\<close>.
\<close>

theorem upload_raises_on_unparseable_body:
  "fst (upload_local_image bad_json_world (py ''temp_image_finance_1.png'')
          (empty_state\<lparr>fs := [py ''temp_image_finance_1.png'' \<mapsto> [137, 80, 78, 71]]\<rparr>))
     = Raised JSONDecodeError"
  by (simp add: model_defs run_defs)

text \<open>
  The failures that \<open>upload_local_image\<close> does handle: a missing file, a transport
  error, a status other than 200 and 201, an empty media list. And its success.
\<close>

lemma upload_handled_failures:
  "(fs s p = None \<longrightarrow> upload_result w p s = Return (JNull, JNull)) \<and>
   (fs s p = Some d \<and>
      media_post w (trace s) (basename p) d (content_type_of (lower (splitext_ext (basename p)))) = Inl e
      \<longrightarrow> upload_result w p s = Return (JNull, JNull)) \<and>
   (fs s p = Some d \<and>
      media_post w (trace s) (basename p) d (content_type_of (lower (splitext_ext (basename p))))
        = Inr (Response st b) \<and> st \<noteq> 200 \<and> st \<noteq> 201
      \<longrightarrow> upload_result w p s = Return (JNull, JNull)) \<and>
   (fs s p = Some d \<and>
      media_post w (trace s) (basename p) d (content_type_of (lower (splitext_ext (basename p))))
        = Inr (Response st (Some (JObj [(py ''media'', JArr [])]))) 
      \<longrightarrow> upload_result w p s = Return (JNull, JNull))"
  by (auto simp: upload_result_def read_media_def)

lemma upload_success:
  assumes "fs s p = Some d"
    and "media_post w (trace s) (basename p) d (content_type_of (lower (splitext_ext (basename p))))
        = Inr (Response st (Some j))"
    and "st = 200 \<or> st = 201"
    and "py_get j (py ''media'') (JArr []) = Inr (JArr (JObj kvs # rest))"
  shows "upload_result w p s =
     Return (case map_of (rev kvs) (py ''id'') of Some v \<Rightarrow> v | None \<Rightarrow> JNull,
             case map_of (rev kvs) (py ''link'') of Some v \<Rightarrow> v | None \<Rightarrow> JNull)"
  using assms by (auto simp: upload_result_def read_media_def)

section \<open>The extension of the temporary file\<close>

lemmas url_eval = py_def temp_ext_def url_path_ext_def url_path_def splitext_ext_def basename_def
  char_defs COLON_def QMARK_def HASH_def

text \<open>
  Claim C9, as stated, takes the extension from the URL's path. The code splits the
  whole URL string, so a query string behind the file name belongs to what it
  finds: for \<open>https://example.com/a.png?w=100\<close> that is \<open>.png?w=100\<close>, longer
  than five characters, and the file gets \<open>.jpg\<close>, while the path's extension is
  \<open>.png\<close>.
\<close>

theorem temp_ext_not_url_path:
  "temp_ext (py ''https://example.com/a.png?w=100'') = py ''.jpg'' \<and>
   url_path_ext (py ''https://example.com/a.png?w=100'') = py ''.png'' \<and>
   temp_ext (py ''https://example.com/a.png?w=100'')
     \<noteq> url_path_ext (py ''https://example.com/a.png?w=100'')"
  by (simp add: url_eval)

text \<open>Facts about \<open>str\<close>, \<open>basename\<close> and \<open>splitext\<close>.\<close>

lemma str_nat_digits: "c \<in> set (str_nat n) \<Longrightarrow> 48 \<le> c \<and> c \<le> 57"
proof (induction n arbitrary: c rule: str_nat.induct)
  case (1 n)
  show ?case
  proof (cases "n < 10")
    case True
    with "1.prems" show ?thesis by (simp add: str_nat.simps [of n])
  next
    case False
    with "1.prems" have "c \<in> set (str_nat (n div 10)) \<or> c = 48 + n mod 10"
      by (auto simp: str_nat.simps [of n])
    with False "1.IH" show ?thesis by auto
  qed
qed

lemma basename_append:
  assumes "SLASH \<notin> set e"
  shows "basename (p @ e) = basename p @ e"
proof -
  from assms have "takeWhile (\<lambda>c. c \<noteq> SLASH) (rev e @ rev p)
      = rev e @ takeWhile (\<lambda>c. c \<noteq> SLASH) (rev p)"
    by (intro takeWhile_append2) auto
  then show ?thesis by (simp add: basename_def)
qed

lemma basename_behind_slash:
  assumes "SLASH \<in> set q"
  shows "basename (x @ q) = basename q"
proof -
  from assms have "takeWhile (\<lambda>c. c \<noteq> SLASH) (rev q @ rev x) = takeWhile (\<lambda>c. c \<noteq> SLASH) (rev q)"
    by (intro takeWhile_append1 [of SLASH]) auto
  then show ?thesis by (simp add: basename_def)
qed

lemma basename_no_slash: "SLASH \<notin> set (basename p)"
proof
  assume "SLASH \<in> set (basename p)"
  then have "SLASH \<in> set (takeWhile (\<lambda>c. c \<noteq> SLASH) (rev p))" by (simp add: basename_def)
  then show False by (auto dest: set_takeWhileD)
qed

lemma splitext_ext_shape:
  assumes "splitext_ext u \<noteq> []"
  shows "\<exists>e. splitext_ext u = DOT # e \<and> DOT \<notin> set e \<and> SLASH \<notin> set e"
proof -
  let ?e = "rev (takeWhile (\<lambda>c. c \<noteq> DOT) (rev (basename u)))"
  from assms have eq: "splitext_ext u = DOT # ?e"
    by (simp add: splitext_ext_def Let_def split: if_splits)
  have d: "DOT \<notin> set ?e" by (auto dest: set_takeWhileD)
  have "set ?e \<subseteq> set (basename u)" by (auto dest: set_takeWhileD)
  with basename_no_slash [of u] have "SLASH \<notin> set ?e" by blast
  with eq d show ?thesis by blast
qed

lemma temp_ext_shape: "\<exists>e. temp_ext u = DOT # e \<and> DOT \<notin> set e \<and> SLASH \<notin> set e"
proof (cases "splitext_ext u = [] \<or> length (splitext_ext u) > 5")
  case True
  then have "temp_ext u = py ''.jpg''" by (auto simp: temp_ext_def Let_def)
  then show ?thesis by (simp add: py_def char_defs)
next
  case False
  then have "temp_ext u = splitext_ext u" by (auto simp: temp_ext_def Let_def)
  with False splitext_ext_shape [of u] show ?thesis by auto
qed

lemma splitext_ext_append:
  assumes "DOT \<notin> set e" "SLASH \<notin> set e" "\<not> list_all (\<lambda>c. c = DOT) (basename p)"
  shows "splitext_ext (p @ DOT # e) = DOT # e"
proof -
  have ds: "DOT \<noteq> SLASH" by (simp add: char_defs)
  with assms(2) have "SLASH \<notin> set (DOT # e)" by auto
  then have b: "basename (p @ DOT # e) = basename p @ DOT # e" by (rule basename_append)
  have r: "rev (basename p @ DOT # e) = rev e @ DOT # rev (basename p)" by simp
  from assms(1) have "takeWhile (\<lambda>c. c \<noteq> DOT) (rev e) = rev e"
    by (auto simp: takeWhile_eq_all_conv)
  then have t: "takeWhile (\<lambda>c. c \<noteq> DOT) (rev e @ DOT # rev (basename p)) = rev e"
    by (simp add: takeWhile_tail)
  from assms(1) have "dropWhile (\<lambda>c. c \<noteq> DOT) (rev e) = []" by auto
  then have d: "dropWhile (\<lambda>c. c \<noteq> DOT) (rev e @ DOT # rev (basename p)) = DOT # rev (basename p)"
    by (simp add: dropWhile_append3)
  show ?thesis
    using assms(3) by (simp add: splitext_ext_def Let_def b r t d del: rev_append rev.simps)
qed

lemma temp_stem_not_dots:
  "\<not> list_all (\<lambda>c. c = DOT) (basename (py ''temp_image_'' @ category @ py ''_'' @ str_nat idx))"
proof -
  have "SLASH \<notin> set (py ''_'' @ str_nat idx)"
    using str_nat_digits [of SLASH idx] by (auto simp: py_def char_defs)
  then have "basename ((py ''temp_image_'' @ category) @ (py ''_'' @ str_nat idx))
      = basename (py ''temp_image_'' @ category) @ (py ''_'' @ str_nat idx)"
    by (rule basename_append)
  then show ?thesis by (simp add: py_def char_defs)
qed

lemma temp_file_has_ext: "splitext_ext (temp_filename category idx (temp_ext u)) = temp_ext u"
proof -
  obtain e where e: "temp_ext u = DOT # e" "DOT \<notin> set e" "SLASH \<notin> set e"
    using temp_ext_shape by blast
  have "splitext_ext ((py ''temp_image_'' @ category @ py ''_'' @ str_nat idx) @ DOT # e) = DOT # e"
    using e(2,3) temp_stem_not_dots by (rule splitext_ext_append)
  with e(1) show ?thesis by (simp add: temp_filename_def)
qed

lemma after_scheme_suffix: "after_scheme u = Some r \<Longrightarrow> \<exists>pre. u = pre @ r"
proof (induction u rule: after_scheme.induct)
  case (1 c1 c2 c3 r')
  show ?case
  proof (cases "c1 = COLON \<and> c2 = SLASH \<and> c3 = SLASH")
    case True
    with "1.prems" have "c1 # c2 # c3 # r' = [c1, c2, c3] @ r" by simp
    then show ?thesis by blast
  next
    case False
    with 1 obtain pre where "c2 # c3 # r' = pre @ r" by auto
    then have "c1 # c2 # c3 # r' = (c1 # pre) @ r" by simp
    then show ?thesis by blast
  qed
qed simp_all

lemma splitext_url_path:
  assumes "QMARK \<notin> set u" "HASH \<notin> set u" "url_path u \<noteq> []"
  shows "splitext_ext (url_path u) = splitext_ext u"
proof -
  from assms(2) have a: "takeWhile (\<lambda>c. c \<noteq> HASH) u = u"
    by (auto simp: takeWhile_eq_all_conv)
  from assms(1) have b: "takeWhile (\<lambda>c. c \<noteq> QMARK) u = u"
    by (auto simp: takeWhile_eq_all_conv)
  have u': "takeWhile (\<lambda>c. c \<noteq> QMARK) (takeWhile (\<lambda>c. c \<noteq> HASH) u) = u"
    by (simp only: a b)
  show ?thesis
  proof (cases "after_scheme u")
    case None
    with u' show ?thesis by (simp add: url_path_def)
  next
    case (Some r)
    with u' have p: "url_path u = dropWhile (\<lambda>c. c \<noteq> SLASH) r" by (simp add: url_path_def)
    from Some obtain pre where pr: "u = pre @ r" using after_scheme_suffix by blast
    let ?q = "dropWhile (\<lambda>c. c \<noteq> SLASH) r"
    from p assms(3) have ne: "?q \<noteq> []" by simp
    then have "\<not> (hd ?q \<noteq> SLASH)" by (rule hd_dropWhile)
    with ne have "SLASH \<in> set ?q" by (metis hd_in_set)
    then have "basename ((pre @ takeWhile (\<lambda>c. c \<noteq> SLASH) r) @ ?q) = basename ?q"
      by (rule basename_behind_slash)
    moreover have "(pre @ takeWhile (\<lambda>c. c \<noteq> SLASH) r) @ ?q = pre @ r" by simp
    ultimately have "basename (pre @ r) = basename ?q" by simp
    with pr p have "basename u = basename (url_path u)" by simp
    then show ?thesis by (simp add: splitext_ext_def)
  qed
qed

text \<open>
  Claim C9, amended: the extension of the temporary file's name is \<open>temp_ext\<close> of
  the image URL, which is what \<open>os.path.splitext\<close> finds in the whole URL string
  (query string and fragment included) when that is not empty and at most five
  characters long including the dot, and \<open>.jpg\<close> otherwise; for a URL without
  query string and fragment and with a non-empty path, this is the extension of
  the URL's path as the specification words it.
\<close>

theorem temp_file_extension:
  "splitext_ext (temp_filename category idx (temp_ext u)) = temp_ext u \<and>
   temp_ext u = (if splitext_ext u \<noteq> [] \<and> length (splitext_ext u) \<le> 5
                 then splitext_ext u else py ''.jpg'') \<and>
   (QMARK \<notin> set u \<and> HASH \<notin> set u \<and> url_path u \<noteq> [] \<longrightarrow> temp_ext u = url_path_ext u)"
proof -
  have 1: "splitext_ext (temp_filename category idx (temp_ext u)) = temp_ext u"
    by (rule temp_file_has_ext)
  have 2: "temp_ext u = (if splitext_ext u \<noteq> [] \<and> length (splitext_ext u) \<le> 5
                 then splitext_ext u else py ''.jpg'')"
    by (auto simp: temp_ext_def Let_def)
  have 3: "QMARK \<notin> set u \<and> HASH \<notin> set u \<and> url_path u \<noteq> [] \<longrightarrow> temp_ext u = url_path_ext u"
    using splitext_url_path [of u] 2 by (auto simp: url_path_ext_def Let_def)
  from 1 2 3 show ?thesis by blast
qed

text \<open>The amended C9 at \<open>https://example.com/fed.png\<close>.\<close>

theorem temp_file_extension_witness:
  "QMARK \<notin> set (py ''https://example.com/fed.png'') \<and>
   HASH \<notin> set (py ''https://example.com/fed.png'') \<and>
   url_path (py ''https://example.com/fed.png'') \<noteq> [] \<and>
   temp_ext (py ''https://example.com/fed.png'') = url_path_ext (py ''https://example.com/fed.png'') \<and>
   splitext_ext (temp_filename (py ''finance'') 1 (temp_ext (py ''https://example.com/fed.png'')))
     = temp_ext (py ''https://example.com/fed.png'')"
proof -
  have h: "QMARK \<notin> set (py ''https://example.com/fed.png'') \<and>
     HASH \<notin> set (py ''https://example.com/fed.png'') \<and>
     url_path (py ''https://example.com/fed.png'') \<noteq> []"
    by (simp add: url_eval)
  from temp_file_extension [of "py ''finance''" 1 "py ''https://example.com/fed.png''"] h
  show ?thesis by blast
qed

text \<open>The values at that URL.\<close>

lemma fed_png_ext:
  "temp_ext (py ''https://example.com/fed.png'') = py ''.png'' \<and>
   url_path (py ''https://example.com/fed.png'') = py ''/fed.png''"
  by (simp add: url_eval)


section \<open>The end-to-end scenarios of the specification\<close>

text \<open>
  One business article with an image; everything succeeds and the post is created
  with status 201: the article is published and the temporary file is gone. With
  status 500 from the media store the article is skipped, no post is created, and
  the temporary file is gone as well.
\<close>

lemma scenario_published:
  "fst (process_article good_world (py ''business'') 1 fed_article empty_state) = Return Published \<and>
   fs (snd (process_article good_world (py ''business'') 1 fed_article empty_state))
      (py ''temp_image_business_1.png'') = None \<and>
   fst (main good_world empty_state) = Return ()"
  by (simp add: model_defs run_defs title_eval)

lemma scenario_upload_500:
  "fst (process_article upload_500_world (py ''business'') 1 fed_article empty_state)
     = Return SkippedNoAttachment \<and>
   fs (snd (process_article upload_500_world (py ''business'') 1 fed_article empty_state))
      (py ''temp_image_business_1.png'') = None \<and>
   filter (\<lambda>e. case e of CreateWordpressPost t c i ok \<Rightarrow> True | _ \<Rightarrow> False)
      (trace (snd (main upload_500_world empty_state))) = []"
  by (simp add: model_defs run_defs title_eval)

end
